theory Spec2Isabelle
  imports Main "HOL-Library.Word"
begin

unbundle bit_operations_syntax

section \<open>Node's \<open>crypto.createHash("sha256")\<close>\<close>

text \<open>
  \<open>calculateHash\<close> in \<open>function.ts\<close> creates a hash object with
  \<open>crypto.createHash("sha256")\<close>, feeds it with \<open>hash.update(buffer)\<close> once per file
  and reads \<open>hash.digest("hex")\<close>. The digest is SHA-256 (FIPS 180-4); it is written out
  here in full so that hashes of concrete bundles can be computed. The round constants (the
  first 32 bits of the fractional parts of the cube roots of the first 64 primes) and the
  initial state (the same of the square roots of the first 8) are given in decimal. A byte
  is a \<open>char\<close> (8 bits), a buffer a \<open>string\<close>.
\<close>

type_synonym bytes = string

definition K256 :: "32 word list" where
  "K256 =
    [1116352408, 1899447441, 3049323471, 3921009573, 961987163, 1508970993,
     2453635748, 2870763221, 3624381080, 310598401, 607225278, 1426881987,
     1925078388, 2162078206, 2614888103, 3248222580, 3835390401, 4022224774,
     264347078, 604807628, 770255983, 1249150122, 1555081692, 1996064986,
     2554220882, 2821834349, 2952996808, 3210313671, 3336571891, 3584528711,
     113926993, 338241895, 666307205, 773529912, 1294757372, 1396182291,
     1695183700, 1986661051, 2177026350, 2456956037, 2730485921, 2820302411,
     3259730800, 3345764771, 3516065817, 3600352804, 4094571909, 275423344,
     430227734, 506948616, 659060556, 883997877, 958139571, 1322822218,
     1537002063, 1747873779, 1955562222, 2024104815, 2227730452, 2361852424,
     2428436474, 2756734187, 3204031479, 3329325298]"

definition H256 :: "32 word list" where
  "H256 = [1779033703, 3144134277, 1013904242, 2773480762,
           1359893119, 2600822924, 528734635, 1541459225]"

definition rotr :: "nat \<Rightarrow> 32 word \<Rightarrow> 32 word" where
  "rotr n x = drop_bit n x OR push_bit (32 - n) x"

definition Ch :: "32 word \<Rightarrow> 32 word \<Rightarrow> 32 word \<Rightarrow> 32 word" where
  "Ch x y z = (x AND y) XOR (NOT x AND z)"

definition Maj :: "32 word \<Rightarrow> 32 word \<Rightarrow> 32 word \<Rightarrow> 32 word" where
  "Maj x y z = (x AND y) XOR (x AND z) XOR (y AND z)"

definition Sig0 :: "32 word \<Rightarrow> 32 word" where
  "Sig0 x = rotr 2 x XOR rotr 13 x XOR rotr 22 x"

definition Sig1 :: "32 word \<Rightarrow> 32 word" where
  "Sig1 x = rotr 6 x XOR rotr 11 x XOR rotr 25 x"

definition sig0 :: "32 word \<Rightarrow> 32 word" where
  "sig0 x = rotr 7 x XOR rotr 18 x XOR drop_bit 3 x"

definition sig1 :: "32 word \<Rightarrow> 32 word" where
  "sig1 x = rotr 17 x XOR rotr 19 x XOR drop_bit 10 x"

text \<open>Big-endian 32-bit words of a block.\<close>

fun be32 :: "8 word list \<Rightarrow> 32 word list" where
  "be32 (a # b # c # d # r) =
     (push_bit 24 (ucast a) OR push_bit 16 (ucast b) OR push_bit 8 (ucast c) OR ucast d) # be32 r"
| "be32 _ = []"

text \<open>The message schedule, newest word first: \<open>extend n\<close> adds \<open>n\<close> words.\<close>

fun extend :: "nat \<Rightarrow> 32 word list \<Rightarrow> 32 word list" where
  "extend 0 w = w"
| "extend (Suc n) w =
     extend n ((sig1 (w ! 1) + w ! 6 + sig0 (w ! 14) + w ! 15) # w)"

definition shuffle :: "32 word \<Rightarrow> 32 word \<Rightarrow> 32 word list \<Rightarrow> 32 word list" where
  "shuffle t1 t2 s =
     (case s of [a, b, c, d, e, f, g, h] \<Rightarrow> [t1 + t2, a, b, c, d + t1, e, f, g] | _ \<Rightarrow> s)"

fun rounds :: "32 word list \<Rightarrow> 32 word list \<Rightarrow> 32 word list \<Rightarrow> 32 word list" where
  "rounds (k # ks) (w # ws) [a, b, c, d, e, f, g, h] =
     rounds ks ws
       (shuffle (h + Sig1 e + Ch e f g + k + w) (Sig0 a + Maj a b c) [a, b, c, d, e, f, g, h])"
| "rounds _ _ s = s"

definition compress :: "32 word list \<Rightarrow> 8 word list \<Rightarrow> 32 word list" where
  "compress s block = map2 (+) s (rounds K256 (rev (extend 48 (rev (be32 block)))) s)"

fun blocks :: "nat \<Rightarrow> 32 word list \<Rightarrow> 8 word list \<Rightarrow> 32 word list" where
  "blocks 0 s bs = s"
| "blocks (Suc n) s bs = blocks n (compress s (take 64 bs)) (drop 64 bs)"

definition be64 :: "64 word \<Rightarrow> 8 word list" where
  "be64 l = [ucast (drop_bit 56 l), ucast (drop_bit 48 l), ucast (drop_bit 40 l),
             ucast (drop_bit 32 l), ucast (drop_bit 24 l), ucast (drop_bit 16 l),
             ucast (drop_bit 8 l), ucast l]"

definition pad :: "8 word list \<Rightarrow> 8 word list" where
  "pad m = m @ [0x80] @ replicate ((119 - length m mod 64) mod 64) 0
             @ be64 (of_nat (8 * length m))"

definition sha256 :: "8 word list \<Rightarrow> 32 word list" where
  "sha256 m = blocks (length (pad m) div 64) H256 (pad m)"

definition hexdigit :: "nat \<Rightarrow> char" where
  "hexdigit n = ''0123456789abcdef'' ! n"

definition hex32 :: "32 word \<Rightarrow> string" where
  "hex32 w = map (\<lambda>i. hexdigit (unat (drop_bit (4 * i) w AND 15))) (rev [0..<8])"

definition sha256_hex :: "bytes \<Rightarrow> string" where
  "sha256_hex s = concat (map hex32 (sha256 (map (\<lambda>c. of_nat (of_char c)) s)))"

text \<open>
  The hash object: its state is the bytes absorbed so far; \<open>update\<close> appends a buffer,
  \<open>digest("hex")\<close> is the lower-case hexadecimal SHA-256 of what was absorbed.
\<close>

type_synonym Hash = bytes

definition createHash :: Hash where
  "createHash = []"

definition hash_update :: "Hash \<Rightarrow> bytes \<Rightarrow> Hash" where
  "hash_update h buf = h @ buf"

definition digest_hex :: "Hash \<Rightarrow> string" where
  "digest_hex h = sha256_hex h"

section \<open>The bundle directory\<close>

text \<open>
  The walks and reads of \<open>function.ts\<close> address the directory \<open>bundle\<close>:
  \<open>globSync("**", {cwd: bundle, ...})\<close>, \<open>readFile(path.resolve(bundle, filePath))\<close>
  and \<open>archive.glob("**", {cwd: bundle})\<close>. The directory is modelled by the list of the nodes below it, each under its path relative
  to the bundle root (segments separated by \<open>/\<close>), in the order in which a walk of the
  directory that descends into symlinked directories reports them. That order is the
  file system's, not the program's. A symbolic link carries what it resolves to.
\<close>

datatype target = ToFile bytes | ToDir | Dangling

datatype node = File bytes | Dir | Symlink target

type_synonym tree = "(string \<times> node) list"

datatype error = ENOENT | EISDIR | ENOTDIR | EACCES

fun isDirectory :: "node \<Rightarrow> bool" where
  "isDirectory Dir = True"
| "isDirectory (Symlink ToDir) = True"
| "isDirectory _ = False"

text \<open>Path segments: the pieces between slashes.\<close>

fun splitSlash :: "string \<Rightarrow> string list" where
  "splitSlash [] = [[]]"
| "splitSlash (c # cs) =
     (if c = CHR ''/'' then [] # splitSlash cs
      else (case splitSlash cs of s # ss \<Rightarrow> (c # s) # ss | [] \<Rightarrow> [[c]]))"

text \<open>
  The ignore pattern \<open>**/node_modules/**\<close>: a path is ignored when one of its segments is
  \<open>node_modules\<close> (glob tests the pattern against the path and against the path with a
  slash appended, so the last segment counts too).
\<close>

definition ignored :: "string \<Rightarrow> bool" where
  "ignored p = (''node_modules'' \<in> set (splitSlash p))"

text \<open>
  \<open>globSync("**", {ignore: "**/node_modules/**", dot: true, nodir: true, follow: true,
  cwd: bundle})\<close>: with \<open>dot: true\<close> no dot file is left out, with \<open>nodir: true\<close> directories
  (and links to directories) are not matched, with \<open>follow: true\<close> the walk descends into
  symlinked directories, which is the walk the listing records. The result keeps the order
  of the walk; nothing sorts it.
\<close>

definition matched :: "string \<times> node \<Rightarrow> bool" where
  "matched e = (\<not> isDirectory (snd e) \<and> \<not> ignored (fst e))"

definition globSync :: "tree \<Rightarrow> string list" where
  "globSync fs = map fst (filter matched fs)"

text \<open>\<open>fs.promises.readFile\<close> follows symbolic links and rejects on a directory or a
  missing target.\<close>

fun contents :: "node \<Rightarrow> error + bytes" where
  "contents (File b) = Inr b"
| "contents Dir = Inl EISDIR"
| "contents (Symlink (ToFile b)) = Inr b"
| "contents (Symlink ToDir) = Inl EISDIR"
| "contents (Symlink Dangling) = Inl ENOENT"

definition readFile :: "tree \<Rightarrow> string \<Rightarrow> error + bytes" where
  "readFile fs p = (case map_of fs p of None \<Rightarrow> Inl ENOENT | Some n \<Rightarrow> contents n)"

subsection \<open>\<open>calculateHash\<close>\<close>

text \<open>
  The \<open>for\<close> loop of \<open>calculateHash\<close>: one \<open>hash.update\<close> per matched path, in the order
  \<open>globSync\<close> returned them, with the bytes \<open>readFile\<close> yields. A rejected read rejects the
  whole computation. The path itself is never given to the hash.
\<close>

fun hashFiles :: "tree \<Rightarrow> Hash \<Rightarrow> string list \<Rightarrow> error + Hash" where
  "hashFiles fs h [] = Inr h"
| "hashFiles fs h (p # ps) =
     (case readFile fs p of
        Inl e \<Rightarrow> Inl e
      | Inr buf \<Rightarrow> hashFiles fs (hash_update h buf) ps)"

definition calculateHash :: "tree \<Rightarrow> error + string" where
  "calculateHash fs =
     (case hashFiles fs createHash (globSync fs) of
        Inl e \<Rightarrow> Inl e
      | Inr h \<Rightarrow> Inr (digest_hex h))"

text \<open>What a node contributes to the digest when it can be read.\<close>

fun bytesOf :: "node \<Rightarrow> bytes" where
  "bytesOf (File b) = b"
| "bytesOf (Symlink (ToFile b)) = b"
| "bytesOf _ = []"

definition readable :: "node \<Rightarrow> bool" where
  "readable n = (n \<noteq> Symlink Dangling)"

section \<open>Node's \<open>path\<close> module (POSIX flavour)\<close>

text \<open>\<open>Array.prototype.join\<close> on strings.\<close>

fun joinWith :: "string \<Rightarrow> string list \<Rightarrow> string" where
  "joinWith sep [] = []"
| "joinWith sep [x] = x"
| "joinWith sep (x # y # ys) = x @ sep @ joinWith sep (y # ys)"

text \<open>
  \<open>normalizeString\<close>: empty segments and \<open>.\<close> are dropped; \<open>..\<close> removes the segment
  before it unless there is none or it is itself \<open>..\<close>, in which case it is kept when
  the path is relative (\<open>allowAboveRoot\<close>) and dropped otherwise. The result so far is
  held reversed.
\<close>

fun normalizeString :: "bool \<Rightarrow> string list \<Rightarrow> string list \<Rightarrow> string list" where
  "normalizeString allowAboveRoot res [] = rev res"
| "normalizeString allowAboveRoot res (s # ss) =
     (if s = [] \<or> s = ''.'' then normalizeString allowAboveRoot res ss
      else if s = ''..'' then
        (if res \<noteq> [] \<and> hd res \<noteq> ''..'' then normalizeString allowAboveRoot (tl res) ss
         else if allowAboveRoot then normalizeString allowAboveRoot (s # res) ss
         else normalizeString allowAboveRoot res ss)
      else normalizeString allowAboveRoot (s # res) ss)"

definition posix_normalize :: "string \<Rightarrow> string" where
  "posix_normalize p =
     (if p = [] then ''.''
      else
        (let isAbsolute = (hd p = CHR ''/'');
             trailingSeparator = (last p = CHR ''/'');
             body = joinWith ''/'' (normalizeString (\<not> isAbsolute) [] (splitSlash p))
         in if body = [] then
              (if isAbsolute then ''/'' else if trailingSeparator then ''./'' else ''.'')
            else (if isAbsolute then ''/'' else []) @ body
                 @ (if trailingSeparator then ''/'' else [])))"

definition posix_join :: "string list \<Rightarrow> string" where
  "posix_join args =
     (let parts = filter (\<lambda>a. a \<noteq> []) args
      in if parts = [] then ''.'' else posix_normalize (joinWith ''/'' parts))"

record ParsedPath =
  root :: string
  dir :: string
  base :: string
  ext :: string
  name :: string

definition stripTrailingSlashes :: "string \<Rightarrow> string" where
  "stripTrailingSlashes s = rev (dropWhile (\<lambda>c. c = CHR ''/'') (rev s))"

definition afterLast :: "char \<Rightarrow> string \<Rightarrow> string" where
  "afterLast x s = rev (takeWhile (\<lambda>c. c \<noteq> x) (rev s))"

text \<open>
  \<open>path.posix.parse\<close>. The scan runs from the end of the path down to index \<open>start\<close>
  (1 for an absolute path, so the leading slash is never looked at): trailing slashes are
  skipped, \<open>base\<close> is what lies between the next slash and them, \<open>startPart\<close> is the
  index where \<open>base\<close> begins when a slash was met and 0 otherwise, \<open>dir\<close> is the path up
  to that slash (or \<open>/\<close> for an absolute path without one). \<open>ext\<close> starts at the last
  dot of \<open>base\<close>, unless \<open>base\<close> has no dot, the dot is its first character, or \<open>base\<close>
  is \<open>..\<close> (a test the code makes against \<open>startPart\<close>, so it misses for an absolute
  path without a second slash).
\<close>

definition posix_parse :: "string \<Rightarrow> ParsedPath" where
  "posix_parse p =
     (let isAbsolute = (p \<noteq> [] \<and> hd p = CHR ''/'');
          start = (if isAbsolute then 1 else 0);
          scanned = stripTrailingSlashes (drop start p);
          b = afterLast (CHR ''/'') scanned;
          startPart = (if length b < length scanned
                       then start + (length scanned - length b) else 0);
          afterDot = afterLast (CHR ''.'') b;
          noExt = (CHR ''.'' \<notin> set b \<or> length b = Suc (length afterDot)
                   \<or> (b = ''..'' \<and> \<not> (isAbsolute \<and> startPart = 0)));
          e = (if noExt then [] else drop (length b - Suc (length afterDot)) b)
      in \<lparr> root = (if isAbsolute then ''/'' else []),
           dir = (if 0 < startPart then take (startPart - 1) p
                  else if isAbsolute then ''/'' else []),
           base = b,
           ext = e,
           name = take (length b - length e) b \<rparr>)"

text \<open>\<open>oldHandlerExt.replace(/^\./, "")\<close>: one leading dot is removed.\<close>

fun dropLeadingDot :: "string \<Rightarrow> string" where
  "dropLeadingDot (c # cs) = (if c = CHR ''.'' then cs else c # cs)"
| "dropLeadingDot [] = []"

section \<open>\<open>wrapHandler\<close>\<close>

definition newHandlerName :: string where
  "newHandlerName = ''server-index''"

definition newHandlerFunction :: string where
  "newHandlerFunction = ''handler''"

text \<open>The lines of the generated module, before \<open>.join("\n")\<close>.\<close>

definition wrapperLines :: "bool \<Rightarrow> string list \<Rightarrow> string \<Rightarrow> string \<Rightarrow> string list" where
  \<open>wrapperLines strm injs oldHandlerFunction oldHandlerName =
     (if strm then
        [''export const '' @ newHandlerFunction
           @ '' = awslambda.streamifyResponse(async (event, context) => {'']
        @ injs
        @ [''  const { '' @ oldHandlerFunction @ '': rawHandler} = await import("./''
             @ oldHandlerName @ ''.mjs");'',
           ''  return rawHandler(event, context);'',
           ''});'']
      else
        [''export const '' @ newHandlerFunction @ '' = async (event, context) => {'']
        @ injs
        @ [''  const { '' @ oldHandlerFunction @ '': rawHandler} = await import("./''
             @ oldHandlerName @ ''.mjs");'',
           ''  return rawHandler(event, context);'',
           ''};''])\<close>

text \<open>
  \<open>wrapHandler\<close>: with no injection the handler is returned and nothing is written.
  Otherwise one write is issued,
  \<open>fs.promises.writeFile(path.join(bundle, handlerDir, "server-index.mjs"), text)\<close>,
  and awaited: when it is rejected the result is rejected with its error, otherwise
  \<open>path.posix.join(handlerDir, "server-index.handler")\<close> is returned. Where the write
  lands is the operating system's affair (the path may leave the bundle or pass through a
  symbolic link), so the model records the call: the function takes the answer to the
  write as a parameter (\<open>None\<close> when it is fulfilled) and returns, beside its result,
  the write it issued, path and data. \<open>path.join\<close> is taken in its POSIX flavour.
\<close>

definition wrapHandler ::
  "string \<Rightarrow> string \<Rightarrow> string list \<Rightarrow> bool \<Rightarrow> (string \<Rightarrow> bytes \<Rightarrow> error option)
     \<Rightarrow> (error + string) \<times> (string \<times> bytes) option" where
  "wrapHandler h b injs strm wr =
     (if length injs = 0 then (Inr h, None)
      else
        (let handlerDir = dir (posix_parse h);
             oldHandlerName = name (posix_parse h);
             oldHandlerExt = ext (posix_parse h);
             oldHandlerFunction = dropLeadingDot oldHandlerExt;
             p = posix_join [b, handlerDir, newHandlerName @ ''.mjs''];
             src = joinWith [CHR 0x0A] (wrapperLines strm injs oldHandlerFunction oldHandlerName)
         in ((case wr p src of
                Some e \<Rightarrow> Inl e
              | None \<Rightarrow> Inr (posix_join [handlerDir, newHandlerName @ ''.'' @ newHandlerFunction])),
             Some (p, src))))"

section \<open>\<open>zipBundleFolder\<close>\<close>

text \<open>
  \<open>archive.glob("**", {cwd: bundle, dot: true})\<close> takes every node below the bundle,
  dot files and \<open>node_modules\<close> included; it is not asked to follow links, so what lies
  below a symlinked directory is not visited. The archive written at \<open>zipPath\<close> is
  represented by the nodes it holds, in the order they were added.
\<close>

definition ancestors :: "string \<Rightarrow> string list" where
  "ancestors p = map (\<lambda>k. joinWith ''/'' (take k (splitSlash p))) [1..<length (splitSlash p)]"

definition belowSymlink :: "tree \<Rightarrow> string \<Rightarrow> bool" where
  "belowSymlink fs p = list_ex (\<lambda>d. map_of fs d = Some (Symlink ToDir)) (ancestors p)"

definition zipBundleFolder :: "tree \<Rightarrow> tree" where
  "zipBundleFolder fs = filter (\<lambda>e. \<not> belowSymlink fs (fst e)) fs"

section \<open>The resources the constructor declares\<close>

text \<open>
  A function's code is an inline archive of named assets or an object in a bucket; the
  resource holds \<open>None\<close> where the provider would see no code at all. The outputs the
  provider computes for a resource (\<open>fn.name\<close>, \<open>role.arn\<close>) are represented by the
  logical names the constructor gives (\<open>name-function\<close>, \<open>name-role\<close>).
\<close>

datatype code_ref = AssetArchive "(string \<times> string) list" | S3Location string string

record BucketObjectv2 =
  key :: string
  bucket :: string
  source :: tree

record Role =
  roleName :: string
  inlinePolicies :: "string list"
  managedPolicyArns :: "string list"

record LambdaFunction =
  functionName :: string
  code :: "code_ref option"
  role :: string
  fnHandler :: string
  variables :: "(string \<times> string) list"

record FunctionCodeUpdaterInputs =
  updFunctionName :: string
  s3Bucket :: string
  s3Key :: string
  updRegion :: "string option"

text \<open>
  \<open>FunctionArgs\<close>, with the fields the constructor reads; an optional field that is
  left out is \<open>None\<close>. The type omits \<open>code\<close>, \<open>s3Bucket\<close>, \<open>s3Key\<close> and \<open>role\<close> of
  the provider's arguments, so the spread \<open>...args\<close> in \<open>createFunction\<close> cannot set
  them. \<open>bundleDir\<close> is the argument \<open>bundle\<close>, the path of the bundle directory; what
  lies in that directory is passed beside the arguments.
\<close>

record FunctionArgs =
  handler :: string
  bundleDir :: string
  bundleHash :: "string option"
  environment :: "(string \<times> string) list option"
  policies :: "string list option"
  streaming :: "bool option"
  injections :: "string list option"
  region :: "string option"

text \<open>
  What the constructor takes from its surroundings. The globals it reads:
  \<open>app.aws.region\<close> and, from \<open>./helpers/aws.js\<close> (not among the sources),
  \<open>AWS.bootstrap.forRegion\<close>, taken as a parameter. And the machine it runs on:
  \<open>writeFile\<close> is the answer of \<open>fs.promises.writeFile(path, data)\<close> (\<open>None\<close> when
  the write is fulfilled), \<open>bundleWhenZipped\<close> the bundle directory as the walk of the
  archive finds it.
\<close>

record App =
  awsRegion :: string
  bootstrapForRegion :: "string \<Rightarrow> string"
  writeFile :: "string \<Rightarrow> bytes \<Rightarrow> error option"
  bundleWhenZipped :: tree

text \<open>\<open>region || app.aws.region\<close>: an absent or empty region falls back.\<close>

definition regionOr :: "string option \<Rightarrow> App \<Rightarrow> string" where
  "regionOr r app = (case r of None \<Rightarrow> awsRegion app
                     | Some x \<Rightarrow> if x = [] then awsRegion app else x)"

definition createRole :: "string \<Rightarrow> string list option \<Rightarrow> Role" where
  "createRole nm pols =
     \<lparr> roleName = nm @ ''-role'',
       inlinePolicies = (case pols of None \<Rightarrow> [] | Some ps \<Rightarrow> ps),
       managedPolicyArns =
         [''arn:aws:iam::aws:policy/service-role/AWSLambdaBasicExecutionRole''] \<rparr>"

text \<open>\<open>pulumi.interpolate`${name}-code-${bundleHash}.zip`\<close>.\<close>

definition objectKey :: "string \<Rightarrow> string \<Rightarrow> string" where
  "objectKey nm h = nm @ ''-code-'' @ h @ ''.zip''"

definition createBucketObject ::
  "App \<Rightarrow> string \<Rightarrow> string option \<Rightarrow> error + string \<Rightarrow> tree \<Rightarrow> error + BucketObjectv2" where
  "createBucketObject app nm rg bh zipFile =
     (case bh of
        Inl e \<Rightarrow> Inl e
      | Inr h \<Rightarrow> Inr \<lparr> key = objectKey nm h,
                      bucket = bootstrapForRegion app (regionOr rg app),
                      source = zipFile \<rparr>)"

definition placeholderCode :: code_ref where
  "placeholderCode = AssetArchive [(''index'', ''exports.handler = () => {}'')]"

definition createFunction ::
  "string \<Rightarrow> Role \<Rightarrow> error + string \<Rightarrow> (string \<times> string) list \<Rightarrow> error + LambdaFunction" where
  "createFunction nm r newHandler env =
     (case newHandler of
        Inl e \<Rightarrow> Inl e
      | Inr h \<Rightarrow> Inr \<lparr> functionName = nm @ ''-function'',
                      code = Some placeholderCode,
                      role = roleName r,
                      fnHandler = h,
                      variables = env \<rparr>)"

definition updateFunctionCode ::
  "string option \<Rightarrow> error + LambdaFunction \<Rightarrow> error + BucketObjectv2
     \<Rightarrow> error + FunctionCodeUpdaterInputs" where
  "updateFunctionCode rg f obj =
     (case f of
        Inl e \<Rightarrow> Inl e
      | Inr f' \<Rightarrow>
          (case obj of
             Inl e \<Rightarrow> Inl e
           | Inr o' \<Rightarrow> Inr \<lparr> updFunctionName = functionName f',
                            s3Bucket = bucket o',
                            s3Key = key o',
                            updRegion = rg \<rparr>))"

text \<open>
  The constructor: \<open>bundleHash\<close> (the caller's value when given, \<open>calculateHash(bundle)\<close>
  otherwise), \<open>wrapHandler()\<close>, \<open>createRole()\<close>, \<open>zipBundleFolder()\<close>,
  \<open>createBucketObject()\<close>, \<open>createFunction()\<close>, \<open>updateFunctionCode()\<close>. A rejected
  output rejects the outputs computed from it and no other.

  The statements only start the work on the directory. \<open>calculateHash\<close>, \<open>wrapHandler\<close>
  and \<open>zipBundleFolder\<close> each hand an asynchronous callback to \<open>apply\<close> on the
  arguments they read (\<open>zipBundleFolder\<close> on \<open>bundle\<close> alone), and none of the three
  awaits another. The code thus fixes no order between the reads of the hash, the write of
  the module and the walk of the archive, and the directory need not look the same to all
  of them. Each is given what it meets: \<open>fs\<close> is the directory as \<open>calculateHash\<close>
  finds it (the nodes its walk reports, each with the content its read returns),
  \<open>bundleWhenZipped app\<close> the directory as the archive finds it, \<open>writeFile app\<close> the
  answer to the write. \<open>writeOut\<close> is the write that was issued.
\<close>

record Deployment =
  bundleHashOut :: "error + string"
  newHandlerOut :: "error + string"
  writeOut :: "(string \<times> bytes) option"
  roleOut :: Role
  zipFileOut :: tree
  fileOut :: "error + BucketObjectv2"
  fnOut :: "error + LambdaFunction"
  updaterOut :: "error + FunctionCodeUpdaterInputs"

definition Function_constructor :: "App \<Rightarrow> string \<Rightarrow> FunctionArgs \<Rightarrow> tree \<Rightarrow> Deployment" where
  "Function_constructor app nm args fs =
     (let env = (case environment args of None \<Rightarrow> [] | Some e \<Rightarrow> e);
          strm = (case streaming args of None \<Rightarrow> False | Some b \<Rightarrow> b);
          injs = (case injections args of None \<Rightarrow> [] | Some xs \<Rightarrow> xs);
          bh = (case bundleHash args of Some h \<Rightarrow> Inr h | None \<Rightarrow> calculateHash fs);
          wrapped = wrapHandler (handler args) (bundleDir args) injs strm (writeFile app);
          r = createRole nm (policies args);
          z = zipBundleFolder (bundleWhenZipped app);
          obj = createBucketObject app nm (region args) bh z;
          f = createFunction nm r (fst wrapped) env
      in \<lparr> bundleHashOut = bh,
           newHandlerOut = fst wrapped,
           writeOut = snd wrapped,
           roleOut = r,
           zipFileOut = z,
           fileOut = obj,
           fnOut = f,
           updaterOut = updateFunctionCode (region args) f obj \<rparr>)"

section \<open>The Code Update Controller\<close>

text \<open>
  Modelled from the spec: \<open>FunctionCodeUpdater\<close> is imported from
  \<open>./function-code-updater.js\<close>, which is not among the sources; only its call in
  \<open>updateFunctionCode\<close> is. What follows is section 4.7 of the specification: one job
  per deploy and function, in the phases
  \<open>Idle \<rightarrow> AwaitingResourceActive \<rightarrow> Applying \<rightarrow> Verifying \<rightarrow> Done | Failed\<close>.
  In each phase the job issues one call to the provider and reads its answer:
  \<open>Ready\<close> (the resource is active, the update was accepted, the update is fully applied),
  \<open>Busy\<close> (still initialising, a conflicting update is applying, still in progress) or
  \<open>Gone\<close> (the resource vanished). Waiting for the resource and applying are retried a
  fixed number of times and then fail fatally; verifying times out to a retryable failure.
  A job whose artifact is the one last applied is done at once.
\<close>

datatype failure = Retryable | Fatal

datatype status = Idle | AwaitingResourceActive | Applying | Verifying | Done | Failed failure

datatype reply = Ready | Busy | Gone

text \<open>Modelled from the spec: the fixed bounds on attempts and on verification polls.\<close>

record Limits =
  maxAttempts :: nat
  maxPolls :: nat

text \<open>Modelled from the spec: the job of section 3, with the function name, the artifact
  location (bucket and key), the region, the status, the attempt count and what was last
  applied; the artifact's key, which embeds the content hash, stands for the hash.\<close>

record CodeUpdateJob =
  jobFunction :: string
  jobBucket :: string
  jobKey :: string
  jobRegion :: "string option"
  jobStatus :: status
  attempts :: nat
  lastApplied :: "string option"

text \<open>Modelled from the spec: a job starts idle, from the inputs \<open>updateFunctionCode\<close> passes.\<close>

definition newJob :: "FunctionCodeUpdaterInputs \<Rightarrow> string option \<Rightarrow> CodeUpdateJob" where
  "newJob u applied =
     \<lparr> jobFunction = updFunctionName u, jobBucket = s3Bucket u, jobKey = s3Key u,
       jobRegion = updRegion u, jobStatus = Idle, attempts = 0, lastApplied = applied \<rparr>"

text \<open>Modelled from the spec: leaving \<open>Idle\<close>; a job whose artifact is the one last applied
  is done without applying or verifying.\<close>

definition begin_job :: "CodeUpdateJob \<Rightarrow> CodeUpdateJob" where
  "begin_job j =
     (if jobStatus j \<noteq> Idle then j
      else if lastApplied j = Some (jobKey j) then j\<lparr>jobStatus := Done\<rparr>
      else j\<lparr>jobStatus := AwaitingResourceActive, attempts := 0\<rparr>)"

text \<open>Modelled from the spec: one more attempt, or the failure once the bound is reached.\<close>

definition retry :: "nat \<Rightarrow> failure \<Rightarrow> CodeUpdateJob \<Rightarrow> CodeUpdateJob" where
  "retry bound fl j =
     (if bound \<le> Suc (attempts j) then j\<lparr>jobStatus := Failed fl\<rparr>
      else j\<lparr>attempts := Suc (attempts j)\<rparr>)"

text \<open>Modelled from the spec: one call to the provider and the phase that follows its
  answer. The resource's code reference changes in one place: when the provider accepts the
  update in \<open>Applying\<close>.\<close>

fun jobStep ::
  "Limits \<Rightarrow> reply \<Rightarrow> CodeUpdateJob \<times> LambdaFunction \<Rightarrow> CodeUpdateJob \<times> LambdaFunction" where
  "jobStep lim r (j, f) =
     (case jobStatus j of
        AwaitingResourceActive \<Rightarrow>
          (case r of
             Ready \<Rightarrow> (j\<lparr>jobStatus := Applying, attempts := 0\<rparr>, f)
           | Busy \<Rightarrow> (retry (maxAttempts lim) Fatal j, f)
           | Gone \<Rightarrow> (j\<lparr>jobStatus := Failed Fatal\<rparr>, f))
      | Applying \<Rightarrow>
          (case r of
             Ready \<Rightarrow> (j\<lparr>jobStatus := Verifying, attempts := 0\<rparr>,
                       f\<lparr>code := Some (S3Location (jobBucket j) (jobKey j))\<rparr>)
           | Busy \<Rightarrow> (retry (maxAttempts lim) Fatal j, f)
           | Gone \<Rightarrow> (j\<lparr>jobStatus := Failed Fatal\<rparr>, f))
      | Verifying \<Rightarrow>
          (case r of
             Ready \<Rightarrow> (j\<lparr>jobStatus := Done, lastApplied := Some (jobKey j)\<rparr>, f)
           | Busy \<Rightarrow> (retry (maxPolls lim) Retryable j, f)
           | Gone \<Rightarrow> (j\<lparr>jobStatus := Failed Fatal\<rparr>, f))
      | _ \<Rightarrow> (j, f))"

text \<open>Modelled from the spec: a job run alone, against the provider's answers in turn.\<close>

definition runJob ::
  "Limits \<Rightarrow> reply list \<Rightarrow> CodeUpdateJob \<times> LambdaFunction \<Rightarrow> CodeUpdateJob \<times> LambdaFunction" where
  "runJob lim rs s = foldl (\<lambda>s r. jobStep lim r s) (begin_job (fst s), snd s) rs"

subsection \<open>The life of a function resource\<close>

text \<open>
  Modelled from the spec: section 4.6. After its creation by \<open>createFunction\<close> a function
  resource meets two kinds of events. A later declarative deploy applies the metadata of
  the newly declared resource and leaves the code reference out of the comparison; a job
  of the controller takes a step.
\<close>

definition declarativeUpdate :: "LambdaFunction \<Rightarrow> LambdaFunction \<Rightarrow> LambdaFunction" where
  "declarativeUpdate desired actual =
     actual\<lparr>role := role desired, fnHandler := fnHandler desired,
            variables := variables desired\<rparr>"

text \<open>Modelled from the spec: what can happen to a function resource after its creation.\<close>

datatype event =
    Redeploy LambdaFunction
  | StartJob FunctionCodeUpdaterInputs
  | Answer reply

text \<open>Modelled from the spec: the effect of one event.\<close>

fun lifeStep ::
  "Limits \<Rightarrow> CodeUpdateJob \<times> LambdaFunction \<Rightarrow> event \<Rightarrow> CodeUpdateJob \<times> LambdaFunction" where
  "lifeStep lim (j, f) (Redeploy desired) = (j, declarativeUpdate desired f)"
| "lifeStep lim (j, f) (StartJob u) = (begin_job (newJob u (lastApplied j)), f)"
| "lifeStep lim (j, f) (Answer r) = jobStep lim r (j, f)"

text \<open>Modelled from the spec: a sequence of events.\<close>

definition life ::
  "Limits \<Rightarrow> event list \<Rightarrow> CodeUpdateJob \<times> LambdaFunction \<Rightarrow> CodeUpdateJob \<times> LambdaFunction" where
  "life lim evs s = foldl (lifeStep lim) s evs"

subsection \<open>Jobs running side by side\<close>

text \<open>
  Modelled from the spec: sections 4.7 and 5. The controller serialises the jobs of one
  function name with a named mutual-exclusion lock keyed by the function name. A system
  holds the jobs, the lock table (function name to the index of the holding job) and
  the function resources by name. A schedule is a list of turns: the job whose turn it is
  and the provider's answer to its call. An idle job takes its function's lock when it is
  free and waits otherwise; a job that holds the lock takes a step of its own and gives the
  lock back when it is done or has failed.
\<close>

record System =
  jobs :: "CodeUpdateJob list"
  locks :: "string \<Rightarrow> nat option"
  resources :: "string \<Rightarrow> LambdaFunction"

text \<open>Modelled from the spec: a job is in flight from \<open>AwaitingResourceActive\<close> to
  \<open>Verifying\<close>.\<close>

definition inFlight :: "CodeUpdateJob \<Rightarrow> bool" where
  "inFlight j = (jobStatus j \<in> {AwaitingResourceActive, Applying, Verifying})"

text \<open>Modelled from the spec: the lock of the job's function after its turn, held while the
  job is in flight and free otherwise.\<close>

definition lockAfter :: "nat \<Rightarrow> CodeUpdateJob \<Rightarrow> (string \<Rightarrow> nat option) \<Rightarrow> (string \<Rightarrow> nat option)" where
  "lockAfter i j lk = (if inFlight j then lk(jobFunction j := Some i) else lk(jobFunction j := None))"

text \<open>Modelled from the spec: one turn of the schedule.\<close>

definition sysStep :: "Limits \<Rightarrow> System \<Rightarrow> nat \<times> reply \<Rightarrow> System" where
  "sysStep lim sys turn =
     (let i = fst turn in
      if length (jobs sys) \<le> i then sys
      else
        (let j = jobs sys ! i in
         if jobStatus j = Idle then
           (if locks sys (jobFunction j) = None
            then sys\<lparr>jobs := (jobs sys)[i := begin_job j],
                     locks := lockAfter i (begin_job j) (locks sys)\<rparr>
            else sys)
         else if inFlight j then
           sys\<lparr>jobs := (jobs sys)[i := fst (jobStep lim (snd turn) (j, resources sys (jobFunction j)))],
               locks := lockAfter i (fst (jobStep lim (snd turn) (j, resources sys (jobFunction j))))
                          (locks sys),
               resources := (resources sys)
                  (jobFunction j := snd (jobStep lim (snd turn) (j, resources sys (jobFunction j))))\<rparr>
         else sys))"

text \<open>Modelled from the spec: a whole schedule.\<close>

definition runSystem :: "Limits \<Rightarrow> (nat \<times> reply) list \<Rightarrow> System \<Rightarrow> System" where
  "runSystem lim sched sys = foldl (sysStep lim) sys sched"

text \<open>Modelled from the spec: at the start of a deploy every job is idle.\<close>

definition initial :: "System \<Rightarrow> bool" where
  "initial sys = list_all (\<lambda>j. jobStatus j = Idle) (jobs sys)"

section \<open>The Artifact Publisher\<close>

text \<open>
  Modelled from the spec: section 4.4. The constructor only declares the bucket object;
  the upload itself is left to the engine and is not among the sources. \<open>publish\<close>
  computes the key as \<open>createBucketObject\<close> does, looks whether an object is already
  stored under it, uploads when there is none, and returns the location. The store maps
  keys to archives; uploads are counted.
\<close>

record Bucket =
  objects :: "string \<Rightarrow> tree option"
  uploads :: nat

definition publish :: "tree \<Rightarrow> string \<Rightarrow> string \<Rightarrow> Bucket \<Rightarrow> string \<times> Bucket" where
  "publish archive nm h b =
     (if objects b (objectKey nm h) = None
      then (objectKey nm h,
            b\<lparr>objects := (objects b)(objectKey nm h \<mapsto> archive), uploads := Suc (uploads b)\<rparr>)
      else (objectKey nm h, b))"

section \<open>Notions used in the statements and proofs\<close>



text \<open>
  The invariant of a running job: it is past \<open>Idle\<close>, keeps its artifact, and from
  \<open>Verifying\<close> on the resource points at that artifact.
\<close>

definition pointed :: "string \<Rightarrow> string \<Rightarrow> CodeUpdateJob \<times> LambdaFunction \<Rightarrow> bool" where
  "pointed b k s =
     (jobBucket (fst s) = b \<and> jobKey (fst s) = k \<and> jobStatus (fst s) \<noteq> Idle
      \<and> (jobStatus (fst s) \<in> {Verifying, Done} \<longrightarrow> code (snd s) = Some (S3Location b k)))"

text \<open>The invariant of the lock table: a job in flight holds the lock of its function.\<close>

definition lockInv :: "System \<Rightarrow> bool" where
  "lockInv sys =
     (\<forall>i<length (jobs sys). inFlight (jobs sys ! i) \<longrightarrow>
         locks sys (jobFunction (jobs sys ! i)) = Some i)"

subsection \<open>Concrete inputs\<close>

text \<open>An application, constructor arguments, limits, a function resource, the inputs of a
  code update and a system of three jobs, two of them for the same function.\<close>

definition demoApp :: App where
  "demoApp = \<lparr> awsRegion = ''us-east-1'', bootstrapForRegion = (\<lambda>r. ''assets-'' @ r),
                writeFile = (\<lambda>p d. None), bundleWhenZipped = [(''index.mjs'', File ''12'')] \<rparr>"

definition demoArgs :: "string option \<Rightarrow> string list \<Rightarrow> FunctionArgs" where
  "demoArgs bh injs =
     \<lparr> handler = ''index.handler'', bundleDir = ''/app/out'', bundleHash = bh, environment = None, policies = None,
       streaming = None, injections = Some injs, region = None \<rparr>"

definition demoLimits :: Limits where
  "demoLimits = \<lparr> maxAttempts = 3, maxPolls = 3 \<rparr>"

definition demoFn :: LambdaFunction where
  "demoFn = \<lparr> functionName = ''Fn-function'', code = Some placeholderCode, role = ''Fn-role'',
              fnHandler = ''index.handler'', variables = [] \<rparr>"

definition demoUpdater :: FunctionCodeUpdaterInputs where
  "demoUpdater = \<lparr> updFunctionName = ''Fn-function'', s3Bucket = ''assets-us-east-1'',
                   s3Key = ''Fn-code-abc.zip'', updRegion = None \<rparr>"

definition demoSystem :: System where
  "demoSystem =
     \<lparr> jobs = [newJob demoUpdater None, newJob demoUpdater None,
               newJob (demoUpdater\<lparr>updFunctionName := ''Other-function''\<rparr>) None],
       locks = (\<lambda>n. None),
       resources = (\<lambda>n. demoFn) \<rparr>"

definition demoSchedule :: "(nat \<times> reply) list" where
  "demoSchedule = [(0, Ready), (1, Ready), (2, Ready), (0, Ready), (1, Busy), (2, Ready)]"

section \<open>Properties of \<open>calculateHash\<close>\<close>

text \<open>Two digests, computed once: of the bytes \<open>12\<close> and of the bytes \<open>21\<close>.\<close>

lemma sha256_hex_12:
  "sha256_hex ''12'' = ''6b51d431df5d7f141cbececcf79edf3dd861c3b4069f0b11661a3eefacbba918''"
  by code_simp

lemma sha256_hex_21:
  "sha256_hex ''21'' = ''6f4b6612125fb3a0daecd2799dfd6c9c299424fd920f9b308110a2c1fbd8f443''"
  by code_simp

lemmas calc_simps = calculateHash_def globSync_def matched_def ignored_def readFile_def
  hash_update_def createHash_def digest_hex_def

lemma readFile_member:
  "distinct (map fst fs) \<Longrightarrow> (p, n) \<in> set fs \<Longrightarrow> readFile fs p = contents n"
  by (simp add: readFile_def)

lemma contents_bytesOf:
  "\<not> isDirectory n \<Longrightarrow> readable n \<Longrightarrow> contents n = Inr (bytesOf n)"
  by (cases n rule: contents.cases) (simp_all add: readable_def)

text \<open>The loop absorbs the contents of the paths it is given, one after the other.\<close>

lemma hashFiles_concat:
  assumes "distinct (map fst fs)"
    and "set es \<subseteq> set fs"
    and "\<forall>e\<in>set es. \<not> isDirectory (snd e) \<and> readable (snd e)"
  shows "hashFiles fs h (map fst es) = Inr (h @ concat (map (\<lambda>e. bytesOf (snd e)) es))"
  using assms(2,3)
proof (induction es arbitrary: h)
  case Nil
  then show ?case by simp
next
  case (Cons e es)
  obtain p n where e: "e = (p, n)" by (cases e)
  from Cons.prems e have mem: "(p, n) \<in> set fs" and ok: "\<not> isDirectory n" "readable n"
    by auto
  have rd: "readFile fs p = Inr (bytesOf n)"
    using readFile_member [OF assms(1) mem] contents_bytesOf [OF ok] by simp
  from Cons.prems have "set es \<subseteq> set fs"
    "\<forall>e\<in>set es. \<not> isDirectory (snd e) \<and> readable (snd e)"
    by auto
  from Cons.IH [OF this] show ?case
    by (simp add: e rd hash_update_def)
qed

lemma hashFiles_globSync:
  assumes "distinct (map fst fs)"
    and "\<forall>e\<in>set fs. matched e \<longrightarrow> readable (snd e)"
  shows "hashFiles fs createHash (globSync fs) =
           Inr (concat (map (\<lambda>e. bytesOf (snd e)) (filter matched fs)))"
proof -
  have "hashFiles fs createHash (map fst (filter matched fs)) =
          Inr (createHash @ concat (map (\<lambda>e. bytesOf (snd e)) (filter matched fs)))"
    using assms(2) by (intro hashFiles_concat [OF assms(1)]) (auto simp: matched_def)
  then show ?thesis
    by (simp add: globSync_def createHash_def)
qed

text \<open>
  C1, as the code has it. For every bundle whose paths are distinct and whose matched
  links all resolve, \<open>calculateHash\<close> returns the hexadecimal SHA-256 of the
  concatenation of the contents of the matched files (not a directory, no segment
  \<open>node_modules\<close>), taken in the order of the walk. Neither the relative paths nor the
  boundaries between files reach the digest, and nothing is sorted: the hash is a function
  of that sequence of contents, so two bundles with the same concatenation hash
  identically.
\<close>

theorem calculateHash_digest_of_traversal:
  assumes "distinct (map fst fs)"
    and "\<forall>e\<in>set fs. matched e \<longrightarrow> readable (snd e)"
  shows "calculateHash fs =
           Inr (sha256_hex (concat (map (\<lambda>e. bytesOf (snd e)) (filter matched fs))))"
  using hashFiles_globSync [OF assms]
  by (simp add: calculateHash_def digest_hex_def)

text \<open>
  C1, witness: a bundle of \<open>a.js\<close>, a file under \<open>node_modules\<close> and \<open>b.js\<close> hashes to
  the digest of the bytes \<open>12\<close>.
\<close>

theorem calculateHash_digest_of_traversal_witness:
  "calculateHash
     [(''a.js'', File ''1''), (''node_modules/m.js'', File ''0''), (''b.js'', File ''2'')]
     = Inr (sha256_hex ''12'')"
  using calculateHash_digest_of_traversal
    [of "[(''a.js'', File ''1''), (''node_modules/m.js'', File ''0''), (''b.js'', File ''2'')]"]
  by (simp add: matched_def ignored_def readable_def)

text \<open>
  C1, as the specification states it, fails twice. The same two files met by the walk in
  the other order hash differently (the set of pairs of path and content is the same),
  and a file renamed from \<open>a.js\<close> to \<open>b.js\<close> with its content unchanged hashes
  identically (the pairs differ).
\<close>

theorem calculateHash_order_and_names_counterexample:
  "calculateHash [(''a.js'', File ''1''), (''b.js'', File ''2'')]
     \<noteq> calculateHash [(''b.js'', File ''2''), (''a.js'', File ''1'')]
   \<and> calculateHash [(''a.js'', File ''12'')] = calculateHash [(''b.js'', File ''12'')]"
  by (simp add: calc_simps sha256_hex_12 sha256_hex_21)



section \<open>Properties of paths\<close>




















section \<open>Properties of \<open>wrapHandler\<close>\<close>















section \<open>Properties of the constructor\<close>

lemma demo_hash0: "calculateHash [(''index.mjs'', File ''12'')] = Inr (sha256_hex ''12'')"
  by (simp add: calc_simps)

section \<open>Properties of the storage key\<close>

text \<open>
  C3. For every resource name and hash \<open>createBucketObject\<close> declares the object under
  the key \<open>name-code-hash.zip\<close>, and \<open>publish\<close> returns that key. Publishing the same
  name and hash a second time returns the same key and uploads nothing more, so at most one
  upload happens; publishing under another hash returns another key and leaves the object
  stored under the first key as it is.
\<close>

theorem objectKey_content_addressed:
  "createBucketObject app nm rg (Inr h) z
     = Inr \<lparr> key = nm @ ''-code-'' @ h @ ''.zip'',
             bucket = bootstrapForRegion app (regionOr rg app), source = z \<rparr>
   \<and> fst (publish a nm h b) = nm @ ''-code-'' @ h @ ''.zip''
   \<and> fst (publish a' nm h (snd (publish a nm h b))) = fst (publish a nm h b)
   \<and> uploads (snd (publish a' nm h (snd (publish a nm h b)))) = uploads (snd (publish a nm h b))
   \<and> uploads (snd (publish a' nm h (snd (publish a nm h b)))) \<le> Suc (uploads b)
   \<and> (h' \<noteq> h \<longrightarrow>
        fst (publish a' nm h' (snd (publish a nm h b))) \<noteq> fst (publish a nm h b)
        \<and> objects (snd (publish a' nm h' (snd (publish a nm h b)))) (fst (publish a nm h b))
            = objects (snd (publish a nm h b)) (fst (publish a nm h b)))"
  by (auto simp: createBucketObject_def publish_def objectKey_def)

text \<open>
  C3, witness: after \<open>h1\<close>, publishing \<open>h2\<close> yields \<open>Fn-code-h2.zip\<close> and keeps the
  archive under \<open>Fn-code-h1.zip\<close>; publishing \<open>h1\<close> twice counts one upload.
\<close>

theorem objectKey_content_addressed_witness:
  "fst (publish [(''index.mjs'', File ''3'')] ''Fn'' ''h2''
          (snd (publish [(''index.mjs'', File ''2'')] ''Fn'' ''h1''
             \<lparr>objects = Map.empty, uploads = 0\<rparr>)))
     = ''Fn-code-h2.zip''
   \<and> objects (snd (publish [(''index.mjs'', File ''3'')] ''Fn'' ''h2''
          (snd (publish [(''index.mjs'', File ''2'')] ''Fn'' ''h1''
             \<lparr>objects = Map.empty, uploads = 0\<rparr>)))) ''Fn-code-h1.zip''
     = Some [(''index.mjs'', File ''2'')]
   \<and> uploads (snd (publish [(''index.mjs'', File ''2'')] ''Fn'' ''h1''
          (snd (publish [(''index.mjs'', File ''2'')] ''Fn'' ''h1''
             \<lparr>objects = Map.empty, uploads = 0\<rparr>)))) = 1"
  using objectKey_content_addressed [of demoApp "''Fn''" None "''h1''" "[]"
      "[(''index.mjs'', File ''2'')]" "\<lparr>objects = Map.empty, uploads = 0\<rparr>"
      "[(''index.mjs'', File ''3'')]" "''h2''"]
    objectKey_content_addressed [of demoApp "''Fn''" None "''h1''" "[]"
      "[(''index.mjs'', File ''2'')]" "\<lparr>objects = Map.empty, uploads = 0\<rparr>"
      "[(''index.mjs'', File ''2'')]" "''h1''"]
  by (simp add: publish_def objectKey_def)

text \<open>
  C10. When the caller supplies \<open>bundleHash\<close>, the hash of the deploy is that value for
  every content of the bundle (also one \<open>calculateHash\<close> would fail on, so the bundle is
  not read for hashing), and the key of the bucket object is \<open>name-code-\<close>, the value
  as it is, \<open>.zip\<close>.
\<close>

theorem supplied_bundleHash_used_verbatim:
  assumes "bundleHash args = Some h"
  shows "bundleHashOut (Function_constructor app nm args fs) = Inr h
       \<and> (\<exists>obj. fileOut (Function_constructor app nm args fs) = Inr obj
                \<and> key obj = nm @ ''-code-'' @ h @ ''.zip'')
       \<and> bundleHashOut (Function_constructor app nm args fs')
           = bundleHashOut (Function_constructor app nm args fs)"
  using assms
  by (simp add: Function_constructor_def Let_def createBucketObject_def objectKey_def)

text \<open>
  C10, witness: the supplied hash \<open>abc\<close> gives the key \<open>Fn-code-abc.zip\<close>, while the
  bundle's content hashes to \<open>6b51...\<close>: the key does not correspond to the content.
\<close>

theorem supplied_bundleHash_used_verbatim_witness:
  "bundleHashOut (Function_constructor demoApp ''Fn'' (demoArgs (Some ''abc'') [])
       [(''index.mjs'', File ''12'')]) = Inr ''abc''
   \<and> map_sum id key (fileOut (Function_constructor demoApp ''Fn'' (demoArgs (Some ''abc'') [])
       [(''index.mjs'', File ''12'')])) = Inr ''Fn-code-abc.zip''
   \<and> calculateHash [(''index.mjs'', File ''12'')]
       = Inr ''6b51d431df5d7f141cbececcf79edf3dd861c3b4069f0b11661a3eefacbba918''"
  using supplied_bundleHash_used_verbatim [of "demoArgs (Some ''abc'') []" "''abc''" demoApp
      "''Fn''" "[(''index.mjs'', File ''12'')]" "[]"]
  by (auto simp: demoArgs_def demo_hash0 sha256_hex_12)

section \<open>Properties of the Code Update Controller\<close>

lemma pointed_jobStep: "pointed b k s \<Longrightarrow> pointed b k (jobStep lim r s)"
  by (cases s; cases "jobStatus (fst s)"; cases r)
     (auto simp: pointed_def retry_def)

lemma pointed_foldl:
  "pointed b k s \<Longrightarrow> pointed b k (foldl (\<lambda>s r. jobStep lim r s) s rs)"
  by (induction rs arbitrary: s) (simp_all add: pointed_jobStep)

text \<open>
  C6. For every deploy that declares the function, the bucket object and the code
  updater: the function is created with the placeholder code, and when a job started from
  the updater's inputs on that fresh resource ends \<open>Done\<close>, the resource's code reference
  is the bucket and key of the published object, and not the placeholder.
\<close>

theorem code_update_points_at_artifact:
  assumes "fnOut (Function_constructor app nm args fs) = Inr f"
    and "fileOut (Function_constructor app nm args fs) = Inr obj"
    and "updaterOut (Function_constructor app nm args fs) = Inr u"
    and "runJob lim rs (newJob u None, f) = (j', f')"
    and "jobStatus j' = Done"
  shows "code f = Some placeholderCode
       \<and> code f' = Some (S3Location (bucket obj) (key obj))
       \<and> code f' \<noteq> Some placeholderCode"
proof -
  have u: "s3Bucket u = bucket obj" "s3Key u = key obj"
    using assms(1-3) by (auto simp: Function_constructor_def Let_def updateFunctionCode_def)
  have f: "code f = Some placeholderCode"
    using assms(1)
    by (auto simp: Function_constructor_def Let_def createFunction_def split: sum.splits)
  have "pointed (bucket obj) (key obj) (begin_job (newJob u None), f)"
    by (simp add: pointed_def begin_job_def newJob_def u)
  then have "pointed (bucket obj) (key obj) (runJob lim rs (newJob u None, f))"
    unfolding runJob_def by (simp add: pointed_foldl)
  with assms(4,5) have "code f' = Some (S3Location (bucket obj) (key obj))"
    by (simp add: pointed_def)
  with f show ?thesis by (simp add: placeholderCode_def)
qed

text \<open>A deploy with the supplied hash \<open>abc\<close> and a job that meets three refusals.\<close>

lemma demo_deploy:
  "fnOut (Function_constructor demoApp ''Fn'' (demoArgs (Some ''abc'') []) fs) = Inr demoFn"
  "fileOut (Function_constructor demoApp ''Fn'' (demoArgs (Some ''abc'') []) fs)
     = Inr \<lparr> key = ''Fn-code-abc.zip'', bucket = ''assets-us-east-1'',
             source = [(''index.mjs'', File ''12'')] \<rparr>"
  "updaterOut (Function_constructor demoApp ''Fn'' (demoArgs (Some ''abc'') []) fs) = Inr demoUpdater"
  by (simp_all add: Function_constructor_def Let_def demoArgs_def demoApp_def demoFn_def
      demoUpdater_def wrapHandler_def createFunction_def createRole_def createBucketObject_def
      updateFunctionCode_def objectKey_def regionOr_def zipBundleFolder_def belowSymlink_def
      ancestors_def)

lemma demo_run:
  "runJob demoLimits [Busy, Ready, Busy, Ready, Busy, Ready] (newJob demoUpdater None, demoFn)
     = (\<lparr> jobFunction = ''Fn-function'', jobBucket = ''assets-us-east-1'',
           jobKey = ''Fn-code-abc.zip'', jobRegion = None, jobStatus = Done, attempts = 1,
           lastApplied = Some ''Fn-code-abc.zip'' \<rparr>,
        demoFn\<lparr>code := Some (S3Location ''assets-us-east-1'' ''Fn-code-abc.zip'')\<rparr>)"
  by (simp add: runJob_def begin_job_def newJob_def demoUpdater_def demoLimits_def retry_def)

text \<open>
  C6, witness: after the answers Busy, Ready, Busy, Ready, Busy, Ready the job is
  \<open>Done\<close> and the function points at \<open>Fn-code-abc.zip\<close> in the bootstrap bucket.
\<close>

theorem code_update_points_at_artifact_witness:
  "code (snd (runJob demoLimits [Busy, Ready, Busy, Ready, Busy, Ready]
            (newJob demoUpdater None, demoFn)))
     = Some (S3Location ''assets-us-east-1'' ''Fn-code-abc.zip'')
   \<and> jobStatus (fst (runJob demoLimits [Busy, Ready, Busy, Ready, Busy, Ready]
            (newJob demoUpdater None, demoFn))) = Done"
  using code_update_points_at_artifact [of demoApp "''Fn''" "demoArgs (Some ''abc'') []"
      "[(''index.mjs'', File ''12'')]" demoFn
      "\<lparr> key = ''Fn-code-abc.zip'', bucket = ''assets-us-east-1'',
         source = [(''index.mjs'', File ''12'')] \<rparr>"
      demoUpdater demoLimits "[Busy, Ready, Busy, Ready, Busy, Ready]"
      "fst (runJob demoLimits [Busy, Ready, Busy, Ready, Busy, Ready] (newJob demoUpdater None, demoFn))"
      "snd (runJob demoLimits [Busy, Ready, Busy, Ready, Busy, Ready] (newJob demoUpdater None, demoFn))"]
  by (simp add: demo_deploy demo_run)

lemma jobStep_code: "code (snd s) \<noteq> None \<Longrightarrow> code (snd (jobStep lim r s)) \<noteq> None"
  by (cases s; cases "jobStatus (fst s)"; cases r) auto

lemma lifeStep_code: "code (snd s) \<noteq> None \<Longrightarrow> code (snd (lifeStep lim s ev)) \<noteq> None"
proof (cases s)
  case (Pair j f)
  assume "code (snd s) \<noteq> None"
  with Pair show ?thesis
    using jobStep_code [of "(j, f)" lim]
    by (cases ev) (auto simp: declarativeUpdate_def)
qed

lemma life_code: "code (snd s) \<noteq> None \<Longrightarrow> code (snd (life lim evs s)) \<noteq> None"
  unfolding life_def
proof (induction evs arbitrary: s)
  case Nil
  then show ?case by simp
next
  case (Cons ev evs)
  from Cons.prems have "code (snd (lifeStep lim s ev)) \<noteq> None"
    by (rule lifeStep_code)
  from Cons.IH [OF this] show ?case by simp
qed

text \<open>
  C7. Every function the constructor declares is created with the fixed placeholder
  \<open>exports.handler = () => {}\<close>, and after any sequence of later declarative deploys,
  job starts and provider answers its code reference is still not null.
\<close>

theorem function_code_never_null:
  assumes "fnOut (Function_constructor app nm args fs) = Inr f"
  shows "code f = Some (AssetArchive [(''index'', ''exports.handler = () => {}'')])
       \<and> code (snd (life lim evs (j, f))) \<noteq> None"
proof -
  have "code f = Some placeholderCode"
    using assms
    by (auto simp: Function_constructor_def Let_def createFunction_def split: sum.splits)
  then show ?thesis
    using life_code [of "(j, f)" lim evs] by (simp add: placeholderCode_def)
qed

text \<open>
  C7, witness: a life with a job start, a redeploy that changes the environment and three
  answers; the code reference ends at the published object.
\<close>

theorem function_code_never_null_witness:
  "code demoFn = Some (AssetArchive [(''index'', ''exports.handler = () => {}'')])
   \<and> code (snd (life demoLimits
        [StartJob demoUpdater, Answer Ready, Redeploy (demoFn\<lparr>variables := [(''K'', ''v'')]\<rparr>),
         Answer Ready, Answer Ready]
        (newJob demoUpdater None, demoFn)))
     = Some (S3Location ''assets-us-east-1'' ''Fn-code-abc.zip'')"
  using function_code_never_null [of demoApp "''Fn''" "demoArgs (Some ''abc'') []"
      "[(''index.mjs'', File ''12'')]" demoFn demoLimits
      "[StartJob demoUpdater, Answer Ready, Redeploy (demoFn\<lparr>variables := [(''K'', ''v'')]\<rparr>),
         Answer Ready, Answer Ready]" "newJob demoUpdater None"]
  by (simp add: demo_deploy life_def begin_job_def newJob_def demoUpdater_def demoFn_def
      declarativeUpdate_def placeholderCode_def)

subsection \<open>Serialisation by the lock\<close>

lemma begin_job_function: "jobFunction (begin_job j) = jobFunction j"
  by (simp add: begin_job_def)

lemma jobStep_function: "jobFunction (fst (jobStep lim r (j, f))) = jobFunction j"
  by (cases "jobStatus j"; cases r) (simp_all add: retry_def)

lemma lockInv_update:
  assumes inv: "lockInv sys"
    and i: "i < length (jobs sys)"
    and fn': "jobFunction j' = jobFunction (jobs sys ! i)"
    and owner: "locks sys (jobFunction (jobs sys ! i)) = None
                \<or> locks sys (jobFunction (jobs sys ! i)) = Some i"
  shows "lockInv (sys\<lparr>jobs := (jobs sys)[i := j'], locks := lockAfter i j' (locks sys),
                      resources := rs\<rparr>)"
  unfolding lockInv_def
proof (intro allI impI)
  fix k
  let ?sys' = "sys\<lparr>jobs := (jobs sys)[i := j'], locks := lockAfter i j' (locks sys),
                    resources := rs\<rparr>"
  assume k: "k < length (jobs ?sys')" and fl: "inFlight (jobs ?sys' ! k)"
  show "locks ?sys' (jobFunction (jobs ?sys' ! k)) = Some k"
  proof (cases "k = i")
    case True
    with fl i show ?thesis by (simp add: lockAfter_def)
  next
    case False
    with k fl have old: "k < length (jobs sys)" "inFlight (jobs sys ! k)"
      by simp_all
    with inv have held: "locks sys (jobFunction (jobs sys ! k)) = Some k"
      by (simp add: lockInv_def)
    with owner False have "jobFunction (jobs sys ! k) \<noteq> jobFunction (jobs sys ! i)"
      by auto
    with held False fn' show ?thesis
      by (simp add: lockAfter_def)
  qed
qed

lemma lockInv_step:
  assumes "lockInv sys"
  shows "lockInv (sysStep lim sys turn)"
proof (cases "length (jobs sys) \<le> fst turn")
  case True
  with assms show ?thesis by (simp add: sysStep_def)
next
  case False
  then have i: "fst turn < length (jobs sys)" by simp
  let ?j = "jobs sys ! fst turn"
  show ?thesis
  proof (cases "jobStatus ?j = Idle")
    case True
    show ?thesis
    proof (cases "locks sys (jobFunction ?j) = None")
      case free: True
      have "lockInv (sys\<lparr>jobs := (jobs sys)[fst turn := begin_job ?j],
                          locks := lockAfter (fst turn) (begin_job ?j) (locks sys),
                          resources := resources sys\<rparr>)"
        using assms i begin_job_function free by (intro lockInv_update) auto
      with True free i show ?thesis by (simp add: sysStep_def Let_def)
    next
      case False
      with True i assms show ?thesis by (auto simp: sysStep_def Let_def)
    qed
  next
    case notIdle: False
    show ?thesis
    proof (cases "inFlight ?j")
      case True
      let ?s = "jobStep lim (snd turn) (?j, resources sys (jobFunction ?j))"
      from assms i True have "locks sys (jobFunction ?j) = Some (fst turn)"
        by (simp add: lockInv_def)
      then have "lockInv (sys\<lparr>jobs := (jobs sys)[fst turn := fst ?s],
                          locks := lockAfter (fst turn) (fst ?s) (locks sys),
                          resources := (resources sys)(jobFunction ?j := snd ?s)\<rparr>)"
        using assms i jobStep_function by (intro lockInv_update) auto
      with True notIdle i show ?thesis by (simp add: sysStep_def Let_def)
    next
      case False
      with notIdle i assms show ?thesis by (simp add: sysStep_def Let_def)
    qed
  qed
qed

lemma lockInv_run: "lockInv sys \<Longrightarrow> lockInv (runSystem lim sched sys)"
  unfolding runSystem_def
proof (induction sched arbitrary: sys)
  case Nil
  then show ?case by simp
next
  case (Cons t sched)
  from Cons.prems have "lockInv (sysStep lim sys t)" by (rule lockInv_step)
  from Cons.IH [OF this] show ?case by simp
qed

lemma lockInv_initial: "initial sys \<Longrightarrow> lockInv sys"
  by (auto simp: initial_def lockInv_def inFlight_def list_all_length)

text \<open>
  C8. From a system in which every job is idle, after any schedule of
  turns, two different jobs for the same function name are never both in flight; in
  particular they are never both \<open>Applying\<close>.
\<close>

theorem jobs_of_one_function_never_overlap:
  assumes "initial sys"
    and "i < length (jobs (runSystem lim sched sys))"
    and "k < length (jobs (runSystem lim sched sys))"
    and "i \<noteq> k"
    and "jobFunction (jobs (runSystem lim sched sys) ! i)
           = jobFunction (jobs (runSystem lim sched sys) ! k)"
  shows "\<not> (inFlight (jobs (runSystem lim sched sys) ! i)
            \<and> inFlight (jobs (runSystem lim sched sys) ! k))
       \<and> \<not> (jobStatus (jobs (runSystem lim sched sys) ! i) = Applying
            \<and> jobStatus (jobs (runSystem lim sched sys) ! k) = Applying)"
proof -
  let ?S = "runSystem lim sched sys"
  have inv: "lockInv ?S"
    using assms(1) by (intro lockInv_run lockInv_initial)
  have "\<not> (inFlight (jobs ?S ! i) \<and> inFlight (jobs ?S ! k))"
  proof
    assume "inFlight (jobs ?S ! i) \<and> inFlight (jobs ?S ! k)"
    with inv assms(2,3) have "locks ?S (jobFunction (jobs ?S ! i)) = Some i"
      "locks ?S (jobFunction (jobs ?S ! k)) = Some k"
      by (simp_all add: lockInv_def)
    with assms(4,5) show False by simp
  qed
  then show ?thesis by (auto simp: inFlight_def)
qed

lemma demo_initial: "initial demoSystem"
  by (simp add: initial_def demoSystem_def newJob_def)

lemma demo_system_jobs:
  "jobs (runSystem demoLimits demoSchedule demoSystem) =
     [\<lparr>jobFunction = ''Fn-function'', jobBucket = ''assets-us-east-1'',
        jobKey = ''Fn-code-abc.zip'', jobRegion = None, jobStatus = Applying,
        attempts = 0, lastApplied = None\<rparr>,
      \<lparr>jobFunction = ''Fn-function'', jobBucket = ''assets-us-east-1'',
        jobKey = ''Fn-code-abc.zip'', jobRegion = None, jobStatus = Idle,
        attempts = 0, lastApplied = None\<rparr>,
      \<lparr>jobFunction = ''Other-function'', jobBucket = ''assets-us-east-1'',
        jobKey = ''Fn-code-abc.zip'', jobRegion = None, jobStatus = Applying,
        attempts = 0, lastApplied = None\<rparr>]"
  by (simp add: runSystem_def demoSchedule_def demoSystem_def sysStep_def Let_def
      begin_job_def newJob_def demoUpdater_def inFlight_def lockAfter_def)

text \<open>
  C8, witness: three jobs, the first two for the same function. After six turns the first
  is \<open>Applying\<close>, the second still waits for the lock, the third (another function) is
  \<open>Applying\<close> too.
\<close>

theorem jobs_of_one_function_never_overlap_witness:
  "map jobStatus (jobs (runSystem demoLimits demoSchedule demoSystem)) = [Applying, Idle, Applying]
   \<and> \<not> (inFlight (jobs (runSystem demoLimits demoSchedule demoSystem) ! 0)
          \<and> inFlight (jobs (runSystem demoLimits demoSchedule demoSystem) ! 1))"
  using jobs_of_one_function_never_overlap [of demoSystem 0 demoLimits demoSchedule 1]
  by (simp add: demo_initial demo_system_jobs)

end
